theory Spec2Isabelle
  imports Complex_Main
begin

section \<open>Python values, exceptions and keyword arguments\<close>

text \<open>
  The development embeds \<^verbatim>\<open>cogen/core/sockets.py\<close> and the \<^verbatim>\<open>serve\<close> coroutine of
  \<^verbatim>\<open>cogen/web/wsgi.py\<close>. Every \<^verbatim>\<open>raise\<close> of the source is a value \<open>Inl e\<close> of a
  sum type; a normal return is \<open>Inr v\<close>.
\<close>

datatype py_error =
    NameError
  | TypeError
  | ValueError
  | AttributeError
  | IndexError
  | RuntimeError
  | AssertionError
  | SocketError
  | SocketGaiError
  | ConnectionClosed
  | OperationTimeout
  | KeyboardInterrupt
  | SystemExit
  | StopIteration


datatype pyval =
    PyNone
  | PyBool bool
  | PyInt int
  | PyFloat real
  | PyStr string
  | PyTuple "pyval list"
  | PyList "pyval list"

text \<open>Truth value testing, as \<^verbatim>\<open>if val:\<close> performs it.\<close>

fun truthy :: "pyval \<Rightarrow> bool" where
  "truthy PyNone = False"
| "truthy (PyBool b) = b"
| "truthy (PyInt i) = (i \<noteq> 0)"
| "truthy (PyFloat r) = (r \<noteq> 0)"
| "truthy (PyStr s) = (s \<noteq> [])"
| "truthy (PyTuple xs) = (xs \<noteq> [])"
| "truthy (PyList xs) = (xs \<noteq> [])"

text \<open>
  A \<^verbatim>\<open>**kws\<close> dictionary. A call that names a parameter twice, once in the call and once
  through \<^verbatim>\<open>**kws\<close>, raises \<^verbatim>\<open>TypeError\<close> before the callee's body runs.
\<close>

type_synonym kwargs = "string \<rightharpoonup> pyval"

definition kw_clash :: "string list \<Rightarrow> kwargs \<Rightarrow> bool" where
  "kw_clash names kws = list_ex (\<lambda>n. kws n \<noteq> None) names"

section \<open>Module globals of sockets.py\<close>

text \<open>
  The module binds \<^verbatim>\<open>_TIMEOUT = None\<close> (line 37). A function body that assigns a name
  without declaring it \<^verbatim>\<open>global\<close> binds a local of that call; a body that only reads
  the name looks it up in the module globals.
\<close>

type_synonym namespace = "string \<rightharpoonup> pyval"

definition module_globals :: namespace where
  "module_globals = [''_TIMEOUT'' \<mapsto> PyNone]"

definition load_global :: "namespace \<Rightarrow> string \<Rightarrow> py_error + pyval" where
  "load_global g name = (case g name of None \<Rightarrow> Inl NameError | Some v \<Rightarrow> Inr v)"

text \<open>
  \<open>store_name declared g l name v\<close>: the assignment \<^verbatim>\<open>name = v\<close> inside a function whose
  \<^verbatim>\<open>global\<close> declarations are \<open>declared\<close>, with module globals \<open>g\<close> and locals \<open>l\<close>.
\<close>

definition store_name ::
  "string list \<Rightarrow> namespace \<Rightarrow> namespace \<Rightarrow> string \<Rightarrow> pyval \<Rightarrow> namespace \<times> namespace" where
  "store_name declared g l name v =
     (if name \<in> set declared then (g(name \<mapsto> v), l) else (g, l(name \<mapsto> v)))"

definition getdefaulttimeout :: "namespace \<Rightarrow> py_error + pyval" where
  "getdefaulttimeout g = load_global g ''_TIMEOUT''"

text \<open>
  \<^verbatim>\<open>def setdefaulttimeout(timeout): _TIMEOUT = timeout\<close>. The body has no
  \<^verbatim>\<open>global\<close> statement. The result is the module globals after the call; the call
  itself returns \<^verbatim>\<open>None\<close>.
\<close>

definition setdefaulttimeout :: "namespace \<Rightarrow> pyval \<Rightarrow> namespace" where
  "setdefaulttimeout g timeout =
     fst (store_name [] g [''timeout'' \<mapsto> timeout] ''_TIMEOUT'' timeout)"

section \<open>The Socket wrapper\<close>

text \<open>
  The object of the standard \<^verbatim>\<open>socket\<close> module that the wrapper keeps in \<^verbatim>\<open>_fd\<close>.
  The standard library creates it in blocking mode. Whether the operating system grants
  the descriptor is a parameter \<open>os_new\<close> of the model.
\<close>

record os_socket =
  fileno :: int
  blocking :: bool
  is_closed :: bool

definition socket_socket ::
  "(pyval list \<Rightarrow> kwargs \<Rightarrow> py_error + int) \<Rightarrow> pyval list \<Rightarrow> kwargs \<Rightarrow> py_error + os_socket" where
  "socket_socket os_new a k =
     (case os_new a k of
        Inl e \<Rightarrow> Inl e
      | Inr n \<Rightarrow> Inr \<lparr>fileno = n, blocking = True, is_closed = False\<rparr>)"

definition os_setblocking :: "os_socket \<Rightarrow> pyval \<Rightarrow> py_error + os_socket" where
  "os_setblocking fd flag =
     (if is_closed fd then Inl SocketError else Inr (fd\<lparr>blocking := truthy flag\<rparr>))"

definition os_close :: "os_socket \<Rightarrow> os_socket" where
  "os_close fd = fd\<lparr>is_closed := True\<rparr>"

text \<open>
  \<^verbatim>\<open>__slots__ = ['_fd', '_timeout', '_reactor_added']\<close>; the leading underscores are
  replaced by the prefix \<open>sock_\<close>.
\<close>

record Socket =
  sock_fd :: os_socket
  sock_timeout :: pyval
  sock_reactor_added :: bool

definition Socket_init ::
  "namespace \<Rightarrow> (pyval list \<Rightarrow> kwargs \<Rightarrow> py_error + int) \<Rightarrow> pyval list \<Rightarrow> kwargs
     \<Rightarrow> py_error + Socket" where
  "Socket_init g os_new a k =
     (case socket_socket os_new a k of
        Inl e \<Rightarrow> Inl e
      | Inr fd \<Rightarrow>
          (case os_setblocking fd (PyInt 0) of
             Inl e \<Rightarrow> Inl e
           | Inr fd' \<Rightarrow>
               (case load_global g ''_TIMEOUT'' of
                  Inl e \<Rightarrow> Inl e
                | Inr t \<Rightarrow>
                    Inr \<lparr>sock_fd = fd', sock_timeout = t, sock_reactor_added = False\<rparr>)))"

definition Socket_close :: "Socket \<Rightarrow> Socket" where
  "Socket_close s = s\<lparr>sock_fd := os_close (sock_fd s)\<rparr>"

definition Socket_settimeout :: "Socket \<Rightarrow> pyval \<Rightarrow> Socket" where
  "Socket_settimeout s to = s\<lparr>sock_timeout := to\<rparr>"

definition Socket_gettimeout :: "Socket \<Rightarrow> pyval" where
  "Socket_gettimeout s = sock_timeout s"

text \<open>\<^verbatim>\<open>setblocking\<close> touches no field: the result is the socket as it was.\<close>

definition Socket_setblocking :: "Socket \<Rightarrow> pyval \<Rightarrow> py_error + Socket" where
  "Socket_setblocking s val = (if truthy val then Inl RuntimeError else Inr s)"


section \<open>The class table of sockets.py\<close>

text \<open>
  The operation classes and their single-inheritance chain. \<^verbatim>\<open>events.TimedOperation\<close> is
  imported from a module outside this development; it stands at the top of every chain.
\<close>

datatype cls =
    C_TimedOperation
  | C_SocketOperation
  | C_SendFile
  | C_Recv
  | C_Send
  | C_SendAll
  | C_Accept
  | C_Connect

text \<open>
  The class statements of the module, in their order: the name bound, the name given as
  the base, and the class. A class statement evaluates the name of its base first; when
  that name is unbound the statement raises \<^verbatim>\<open>NameError\<close> and binds nothing. Each
  statement is taken on its own here, as if the statements after a failing one were still
  executed.
\<close>

definition class_statements :: "(string \<times> string \<times> cls) list" where
  "class_statements =
     [(''SocketOperation'', ''events.TimedOperation'', C_SocketOperation),
      (''SendFile'', ''WriteOperation'', C_SendFile),
      (''Recv'', ''SocketOperation'', C_Recv),
      (''Send'', ''SocketOperation'', C_Send),
      (''SendAll'', ''SocketOperation'', C_SendAll),
      (''Accept'', ''SocketOperation'', C_Accept),
      (''Connect'', ''SocketOperation'', C_Connect)]"

fun bind_classes ::
  "(string \<rightharpoonup> cls) \<Rightarrow> (string \<times> string \<times> cls) list \<Rightarrow> (string \<rightharpoonup> cls)" where
  "bind_classes ns [] = ns"
| "bind_classes ns ((name, base, c) # rest) =
     bind_classes (if ns base = None then ns else ns(name \<mapsto> c)) rest"

text \<open>
  The names that resolve to a class inside the module: those its class statements bind,
  starting from the imported \<^verbatim>\<open>events.TimedOperation\<close>. The names \<^verbatim>\<open>Read\<close>, \<^verbatim>\<open>Write\<close>,
  \<^verbatim>\<open>WriteAll\<close> and \<^verbatim>\<open>WriteOperation\<close>, listed in \<^verbatim>\<open>__all__\<close> or used in the class
  bodies, are bound by no statement; so \<^verbatim>\<open>SendFile\<close>, whose base is \<^verbatim>\<open>WriteOperation\<close>,
  is not bound either.
\<close>

definition class_named :: "string \<Rightarrow> cls option" where
  "class_named name =
     bind_classes [''events.TimedOperation'' \<mapsto> C_TimedOperation] class_statements name"

text \<open>
  The resolution order of each class that is created. No base of \<^verbatim>\<open>SendFile\<close> can be
  resolved.
\<close>

definition mro :: "cls \<Rightarrow> cls list" where
  "mro c =
     (case c of
        C_TimedOperation \<Rightarrow> [C_TimedOperation]
      | C_SocketOperation \<Rightarrow> [C_SocketOperation, C_TimedOperation]
      | C_SendFile \<Rightarrow> [C_SendFile]
      | _ \<Rightarrow> [c, C_SocketOperation, C_TimedOperation])"

text \<open>
  The methods each class body defines. For \<^verbatim>\<open>TimedOperation\<close> the list holds the methods
  the subclasses reach through \<^verbatim>\<open>super\<close>, and the \<^verbatim>\<open>process\<close> and \<^verbatim>\<open>cleanup\<close> of the
  base contract.
\<close>

fun class_methods :: "cls \<Rightarrow> string list" where
  "class_methods C_TimedOperation = [''__init__'', ''process'', ''finalize'', ''cleanup'']"
| "class_methods C_SocketOperation = [''__init__'', ''cleanup'']"
| "class_methods C_SendFile =
     [''__init__'', ''send'', ''iocp_send'', ''iocp'', ''iocp_done'', ''run'', ''__repr__'']"
| "class_methods C_Recv = [''__init__'', ''process'', ''finalize'']"
| "class_methods C_Send = [''__init__'', ''process'', ''finalize'']"
| "class_methods C_SendAll = [''__init__'', ''process'']"
| "class_methods C_Accept = [''__init__'', ''process'', ''finalize'', ''__repr__'']"
| "class_methods C_Connect = [''__init__'', ''process'', ''finalize'']"

text \<open>Attribute lookup along a list of classes: the first class that defines the method.\<close>

definition lookup_method :: "cls list \<Rightarrow> string \<Rightarrow> cls option" where
  "lookup_method cs m = find (\<lambda>c. m \<in> set (class_methods c)) cs"

text \<open>
  \<^verbatim>\<open>super(name, self)\<close> for an object of class \<open>self_cls\<close>: the name must be bound, and
  the object must be an instance of the class it is bound to; the result is the rest of
  the object's resolution order after that class.
\<close>

definition py_super :: "string \<Rightarrow> cls \<Rightarrow> py_error + cls list" where
  "py_super name self_cls =
     (case class_named name of
        None \<Rightarrow> Inl NameError
      | Some c \<Rightarrow>
          if c \<in> set (mro self_cls)
          then Inr (tl (dropWhile (\<lambda>k. k \<noteq> c) (mro self_cls)))
          else Inl TypeError)"

section \<open>Socket operations\<close>

text \<open>
  A slot named in \<^verbatim>\<open>__slots__\<close> holds nothing until it is assigned; reading it before
  raises \<^verbatim>\<open>AttributeError\<close>.
\<close>

datatype 'a slot = Unset | Holds 'a

fun read_slot :: "'a slot \<Rightarrow> py_error + 'a" where
  "read_slot Unset = Inl AttributeError"
| "read_slot (Holds v) = Inr v"

text \<open>
  \<open>base_kws\<close> is what the model keeps of the part of an operation that
  \<^verbatim>\<open>events.TimedOperation\<close> owns: the keyword arguments its constructor was called with
  (\<^verbatim>\<open>timeout\<close>, \<^verbatim>\<open>weak_timeout\<close>, \<^verbatim>\<open>prio\<close>). The slots \<^verbatim>\<open>last_update\<close> and \<^verbatim>\<open>type\<close> are
  assigned nowhere in the module.
\<close>

record SocketOperation =
  sock :: Socket
  run_first :: pyval
  base_kws :: kwargs

text \<open>
  \<^verbatim>\<open>def __init__(self, sock, run_first=True, **kws)\<close>, reached as
  \<^verbatim>\<open>super(X, self).__init__(sock, **kws)\<close>. The assertion \<^verbatim>\<open>isinstance(sock, Socket)\<close> holds
  by typing.
\<close>

definition SocketOperation_init :: "cls \<Rightarrow> Socket \<Rightarrow> kwargs \<Rightarrow> py_error + SocketOperation" where
  "SocketOperation_init self_cls sk kws =
     (if kw_clash [''self'', ''sock''] kws then Inl TypeError
      else
        (case py_super ''SocketOperation'' self_cls of
           Inl e \<Rightarrow> Inl e
         | Inr rest \<Rightarrow>
             (case lookup_method rest ''__init__'' of
                None \<Rightarrow> Inl AttributeError
              | Some _ \<Rightarrow>
                  Inr \<lparr>sock = sk,
                       run_first = (case kws ''run_first'' of None \<Rightarrow> PyBool True | Some v \<Rightarrow> v),
                       base_kws = kws(''run_first'' := None)\<rparr>)))"

text \<open>
  \<^verbatim>\<open>super(name, self).__init__(sock, **kws)\<close> in the body of a subclass. The only
  constructor that accepts the positional \<^verbatim>\<open>sock\<close> is that of \<^verbatim>\<open>SocketOperation\<close>.
\<close>

definition super_init :: "string \<Rightarrow> cls \<Rightarrow> Socket \<Rightarrow> kwargs \<Rightarrow> py_error + SocketOperation" where
  "super_init name self_cls sk kws =
     (case py_super name self_cls of
        Inl e \<Rightarrow> Inl e
      | Inr rest \<Rightarrow>
          (case lookup_method rest ''__init__'' of
             Some C_SocketOperation \<Rightarrow> SocketOperation_init self_cls sk kws
           | Some _ \<Rightarrow> Inl TypeError
           | None \<Rightarrow> Inl AttributeError))"

text \<open>
  \<^verbatim>\<open>super(name, self).finalize()\<close>. No class of this module below the named one defines
  \<^verbatim>\<open>finalize\<close> except through \<^verbatim>\<open>TimedOperation\<close>, whose \<^verbatim>\<open>finalize\<close> is the parameter
  \<open>fin\<close>, applied to the part of the object that class owns.
\<close>

type_synonym base_finalize = "kwargs \<Rightarrow> py_error + pyval"

definition super_finalize ::
  "base_finalize \<Rightarrow> string \<Rightarrow> cls \<Rightarrow> kwargs \<Rightarrow> py_error + pyval" where
  "super_finalize fin name self_cls bk =
     (case py_super name self_cls of
        Inl e \<Rightarrow> Inl e
      | Inr rest \<Rightarrow>
          (case lookup_method rest ''finalize'' of
             Some C_TimedOperation \<Rightarrow> fin bk
           | _ \<Rightarrow> Inl AttributeError))"

subsection \<open>Recv\<close>

record Recv = SocketOperation +
  recv_len :: pyval
  recv_buff :: pyval

definition Recv_init :: "Socket \<Rightarrow> pyval \<Rightarrow> kwargs \<Rightarrow> py_error + Recv" where
  "Recv_init sk n kws =
     (if kw_clash [''self'', ''sock'', ''len''] kws then Inl TypeError
      else
        (case super_init ''Read'' C_Recv sk kws of
           Inl e \<Rightarrow> Inl e
         | Inr b \<Rightarrow>
             Inr \<lparr>sock = sock b, run_first = run_first b, base_kws = base_kws b,
                  recv_len = n, recv_buff = PyNone\<rparr>))"

definition Recv_finalize :: "base_finalize \<Rightarrow> Recv \<Rightarrow> py_error + pyval" where
  "Recv_finalize fin op =
     (case super_finalize fin ''Read'' C_Recv (base_kws op) of
        Inl e \<Rightarrow> Inl e
      | Inr _ \<Rightarrow> Inr (recv_buff op))"

subsection \<open>Send\<close>

record Send = SocketOperation +
  send_buff :: pyval
  send_sent :: pyval

definition Send_init :: "Socket \<Rightarrow> pyval \<Rightarrow> kwargs \<Rightarrow> py_error + Send" where
  "Send_init sk b kws =
     (if kw_clash [''self'', ''sock'', ''buff''] kws then Inl TypeError
      else
        (case super_init ''Write'' C_Send sk kws of
           Inl e \<Rightarrow> Inl e
         | Inr bs \<Rightarrow>
             Inr \<lparr>sock = sock bs, run_first = run_first bs, base_kws = base_kws bs,
                  send_buff = b, send_sent = PyInt 0\<rparr>))"

definition Send_finalize :: "base_finalize \<Rightarrow> Send \<Rightarrow> py_error + pyval" where
  "Send_finalize fin op =
     (case super_finalize fin ''Write'' C_Send (base_kws op) of
        Inl e \<Rightarrow> Inl e
      | Inr _ \<Rightarrow> Inr (send_sent op))"

subsection \<open>SendAll\<close>

text \<open>
  \<^verbatim>\<open>__slots__ = ['sent', 'buff']\<close>. The constructor assigns \<^verbatim>\<open>buff\<close> only, and the class
  body defines \<^verbatim>\<open>__init__\<close> and \<^verbatim>\<open>process\<close> and nothing else.
\<close>

record SendAll = SocketOperation +
  sendall_sent :: "pyval slot"
  sendall_buff :: pyval

definition SendAll_init :: "Socket \<Rightarrow> pyval \<Rightarrow> kwargs \<Rightarrow> py_error + SendAll" where
  "SendAll_init sk b kws =
     (if kw_clash [''self'', ''sock'', ''buff''] kws then Inl TypeError
      else
        (case super_init ''WriteAll'' C_SendAll sk kws of
           Inl e \<Rightarrow> Inl e
         | Inr bs \<Rightarrow>
             Inr \<lparr>sock = sock bs, run_first = run_first bs, base_kws = base_kws bs,
                  sendall_sent = Unset, sendall_buff = b\<rparr>))"

subsection \<open>Accept\<close>

text \<open>
  \<^verbatim>\<open>conn\<close> is assigned \<^verbatim>\<open>None\<close> by the constructor and a \<^verbatim>\<open>Socket\<close> on completion:
  a \<open>Socket option\<close>, with \<open>None\<close> for Python's \<^verbatim>\<open>None\<close>. \<^verbatim>\<open>addr\<close> is a slot the
  constructor leaves alone.
\<close>

record Accept = SocketOperation +
  accept_conn :: "Socket option"
  accept_addr :: "pyval slot"

definition Accept_init :: "Socket \<Rightarrow> kwargs \<Rightarrow> py_error + Accept" where
  "Accept_init sk kws =
     (if kw_clash [''self'', ''sock''] kws then Inl TypeError
      else
        (case super_init ''Accept'' C_Accept sk kws of
           Inl e \<Rightarrow> Inl e
         | Inr bs \<Rightarrow>
             Inr \<lparr>sock = sock bs, run_first = run_first bs, base_kws = base_kws bs,
                  accept_conn = None, accept_addr = Unset\<rparr>))"

definition Accept_finalize :: "base_finalize \<Rightarrow> Accept \<Rightarrow> py_error + (Socket option \<times> pyval)" where
  "Accept_finalize fin op =
     (case super_finalize fin ''Accept'' C_Accept (base_kws op) of
        Inl e \<Rightarrow> Inl e
      | Inr _ \<Rightarrow>
          (case read_slot (accept_addr op) of
             Inl e \<Rightarrow> Inl e
           | Inr a \<Rightarrow> Inr (accept_conn op, a)))"

subsection \<open>Connect\<close>

record Connect = SocketOperation +
  connect_addr :: pyval
  connect_conn :: "Socket slot"

definition Connect_init :: "Socket \<Rightarrow> pyval \<Rightarrow> kwargs \<Rightarrow> py_error + Connect" where
  "Connect_init sk a kws =
     (if kw_clash [''self'', ''sock'', ''addr''] kws then Inl TypeError
      else
        (case super_init ''Connect'' C_Connect sk kws of
           Inl e \<Rightarrow> Inl e
         | Inr bs \<Rightarrow>
             Inr \<lparr>sock = sock bs, run_first = run_first bs, base_kws = base_kws bs,
                  connect_addr = a, connect_conn = Unset\<rparr>))"

text \<open>\<^verbatim>\<open>super(Accept, self).finalize()\<close>, then \<^verbatim>\<open>return self.conn\<close>.\<close>

definition Connect_finalize :: "base_finalize \<Rightarrow> Connect \<Rightarrow> py_error + Socket" where
  "Connect_finalize fin op =
     (case super_finalize fin ''Accept'' C_Connect (base_kws op) of
        Inl e \<Rightarrow> Inl e
      | Inr _ \<Rightarrow> read_slot (connect_conn op))"

subsection \<open>The operation constructors of Socket\<close>

text \<open>
  \<^verbatim>\<open>Recv(self, bufsize, timeout=self._timeout, **kws)\<close>: a \<^verbatim>\<open>timeout\<close> among \<^verbatim>\<open>kws\<close> is a
  second value for the same keyword.
\<close>

definition Socket_recv :: "Socket \<Rightarrow> pyval \<Rightarrow> kwargs \<Rightarrow> py_error + Recv" where
  "Socket_recv s bufsize kws =
     (if kw_clash [''timeout''] kws then Inl TypeError
      else Recv_init s bufsize (kws(''timeout'' \<mapsto> sock_timeout s)))"

definition Socket_send :: "Socket \<Rightarrow> pyval \<Rightarrow> kwargs \<Rightarrow> py_error + Send" where
  "Socket_send s data kws =
     (if kw_clash [''timeout''] kws then Inl TypeError
      else Send_init s data (kws(''timeout'' \<mapsto> sock_timeout s)))"

definition Socket_sendall :: "Socket \<Rightarrow> pyval \<Rightarrow> kwargs \<Rightarrow> py_error + SendAll" where
  "Socket_sendall s data kws =
     (if kw_clash [''timeout''] kws then Inl TypeError
      else SendAll_init s data (kws(''timeout'' \<mapsto> sock_timeout s)))"

definition Socket_accept :: "Socket \<Rightarrow> kwargs \<Rightarrow> py_error + Accept" where
  "Socket_accept s kws = Accept_init s kws"

definition Socket_connect :: "Socket \<Rightarrow> pyval \<Rightarrow> kwargs \<Rightarrow> py_error + Connect" where
  "Socket_connect s address kws = Connect_init s address kws"

text \<open>The timeout an operation was constructed with, if any was passed.\<close>

definition op_timeout :: "'a SocketOperation_scheme \<Rightarrow> pyval option" where
  "op_timeout op = base_kws op ''timeout''"

subsection \<open>SendFile\<close>

text \<open>
  The file object handed to \<^verbatim>\<open>SendFile\<close>; \<open>tell\<close> is the position \<^verbatim>\<open>file_handle.tell()\<close>
  reports.
\<close>

record file_object =
  tell :: int

text \<open>
  \<^verbatim>\<open>__slots__ = ['sent', 'file_handle', 'offset', 'position', 'length', 'blocksize']\<close>, the
  fields prefixed by \<open>sf_\<close>. \<^verbatim>\<open>length\<close> is \<^verbatim>\<open>None\<close> when omitted.
\<close>

record SendFile = SocketOperation +
  sf_sent :: int
  sf_file_handle :: file_object
  sf_offset :: int
  sf_position :: int
  sf_length :: "int option"
  sf_blocksize :: int

text \<open>\<^verbatim>\<open>offset or file_handle.tell()\<close>: an offset of \<^verbatim>\<open>None\<close> or \<^verbatim>\<open>0\<close> is falsy.\<close>

definition offset_or_tell :: "int option \<Rightarrow> file_object \<Rightarrow> int" where
  "offset_or_tell off fh =
     (case off of None \<Rightarrow> tell fh | Some v \<Rightarrow> if v \<noteq> 0 then v else tell fh)"

text \<open>
  The call \<^verbatim>\<open>SendFile(file_handle, sock, offset, length, blocksize, **kws)\<close>. It
  evaluates the name \<^verbatim>\<open>SendFile\<close> before anything else.
\<close>

definition SendFile_init ::
  "file_object \<Rightarrow> Socket \<Rightarrow> int option \<Rightarrow> int option \<Rightarrow> int \<Rightarrow> kwargs \<Rightarrow> py_error + SendFile" where
  "SendFile_init fh sk off len bs kws =
     (case class_named ''SendFile'' of
        None \<Rightarrow> Inl NameError
      | Some _ \<Rightarrow>
          if kw_clash
               [''self'', ''file_handle'', ''sock'', ''offset'', ''length'', ''blocksize''] kws
          then Inl TypeError
          else
            (case super_init ''SendFile'' C_SendFile sk kws of
               Inl e \<Rightarrow> Inl e
             | Inr b \<Rightarrow>
                 Inr \<lparr>sock = sock b, run_first = run_first b, base_kws = base_kws b,
                      sf_sent = 0, sf_file_handle = fh,
                      sf_offset = offset_or_tell off fh, sf_position = offset_or_tell off fh,
                      sf_length = len, sf_blocksize = bs\<rparr>))"

text \<open>
  One call of \<^verbatim>\<open>run\<close>. It returns \<^verbatim>\<open>self\<close> when the operation is complete, \<^verbatim>\<open>None\<close>
  (by falling off the end) when it is not, or raises. The first component of the result
  is the \<open>(offset, length)\<close> the call passed to \<^verbatim>\<open>self.send\<close>, if it called it at all.
  \<^verbatim>\<open>self.send\<close> hands the request to the operating system, through \<^verbatim>\<open>sendfile\<close> or
  through a read and a socket send; the byte count it returns, or the error it raises,
  is the argument \<open>r\<close>.
\<close>

datatype run_result =
    Returned_self SendFile
  | Returned_None SendFile
  | Raised py_error

text \<open>\<^verbatim>\<open>if self.length:\<close>\<close>

definition length_given :: "int option \<Rightarrow> bool" where
  "length_given len = (case len of None \<Rightarrow> False | Some n \<Rightarrow> n \<noteq> 0)"

definition SendFile_run :: "SendFile \<Rightarrow> py_error + int \<Rightarrow> (int \<times> int) option \<times> run_result" where
  "SendFile_run op r =
     (if length_given (sf_length op) \<and> \<not> (sf_sent op \<le> the (sf_length op))
      then (None, Raised AssertionError)
      else if Some (sf_sent op) = sf_length op then (None, Returned_self op)
      else if length_given (sf_length op) then
        (let req =
           (if sf_blocksize op \<noteq> 0
            then (sf_offset op + sf_sent op,
                  min (the (sf_length op) - sf_sent op) (sf_blocksize op))
            else (sf_offset op + sf_sent op, the (sf_length op) - sf_sent op))
         in case r of
              Inl e \<Rightarrow> (Some req, Raised e)
            | Inr n \<Rightarrow>
                (let op' = op\<lparr>sf_sent := sf_sent op + n\<rparr>
                 in if Some (sf_sent op') = sf_length op'
                    then (Some req, Returned_self op')
                    else (Some req, Returned_None op')))
      else
        (let req =
           (if sf_blocksize op \<noteq> 0
            then (sf_offset op + sf_sent op, sf_blocksize op)
            else (sf_offset op + sf_sent op, sf_blocksize op))
         in case r of
              Inl e \<Rightarrow> (Some req, Raised e)
            | Inr n \<Rightarrow>
                (let op' = op\<lparr>sf_sent := sf_sent op + n\<rparr>
                 in if n = 0
                    then (Some req, Returned_self op')
                    else (Some req, Returned_None op'))))"

text \<open>
  Modelled from the spec: the reactor that drives a \<^verbatim>\<open>SendFile\<close> is outside this
  development. In readiness mode a partially complete \<^verbatim>\<open>SendFile\<close> stays queued and is
  attempted again at the next readiness event, until an attempt completes it or raises.
  \<open>rs\<close> holds what the operating system answers to the successive sends; the result is
  the list of requests made and the outcome of the last attempt, \<open>Returned_None\<close> when the
  answers ran out with the operation still pending.
\<close>

fun SendFile_attempts ::
  "SendFile \<Rightarrow> (py_error + int) list \<Rightarrow> (int \<times> int) list \<times> run_result" where
  "SendFile_attempts op [] = ([], Returned_None op)"
| "SendFile_attempts op (r # rs) =
     (case SendFile_run op r of
        (rq, Returned_None op') \<Rightarrow>
          (case SendFile_attempts op' rs of
             (rqs, res) \<Rightarrow> ((case rq of None \<Rightarrow> [] | Some q \<Rightarrow> [q]) @ rqs, res))
      | (rq, res) \<Rightarrow> ((case rq of None \<Rightarrow> [] | Some q \<Rightarrow> [q]), res))"

section \<open>The serve coroutine of the WSGI server\<close>







text \<open>
  Modelled from the spec: \<^verbatim>\<open>cogen.core.util.priority\<close> is not part of the sources at hand;
  the run queue is ordered by the priority tags \<^verbatim>\<open>FIRST\<close>, \<^verbatim>\<open>DEFAULT\<close>, \<^verbatim>\<open>LAST\<close>.
\<close>

datatype priority = FIRST | DEFAULT | LAST



text \<open>
  The attributes of a \<^verbatim>\<open>WSGIServer\<close> that \<^verbatim>\<open>serve\<close> reads. \<^verbatim>\<open>ConnectionClass\<close> is a class
  attribute, bound to \<^verbatim>\<open>WSGIConnection\<close> in the class body; it is kept as the function
  from the constructor arguments \<^verbatim>\<open>(sock, wsgi_app, environ, sendfile_timeout)\<close> to the
  connection object or the exception the constructor raises. \<open>socket\<close> is
  \<^verbatim>\<open>self.socket\<close>.
\<close>

record ('app, 'conn) WSGIServer =
  bind_addr :: pyval
  wsgi_app :: 'app
  request_queue_size :: int
  sockoper_timeout :: pyval
  sendfile_timeout :: pyval
  sockaccept_greedy :: pyval
  environ :: "string \<rightharpoonup> pyval"
  version :: string
  protocol :: string
  server_name :: pyval
  ConnectionClass :: "Socket \<Rightarrow> 'app \<Rightarrow> (string \<rightharpoonup> pyval) \<Rightarrow> pyval \<Rightarrow> py_error + 'conn"
  socket :: "Socket option"






text \<open>
  The coroutine as a state machine. It is suspended before its first statement, at
  \<^verbatim>\<open>yield sockets.Accept(...)\<close>, at \<^verbatim>\<open>yield events.AddCoro(...)\<close>, or it has finished.
  The scheduler resumes it with the value of the operation it yielded, or by throwing an
  exception into it. The value of an \<^verbatim>\<open>Accept\<close> is the pair its \<^verbatim>\<open>finalize\<close> returns.
\<close>

datatype serve_pc = Unstarted | At_accept | At_addcoro | Finished


text \<open>
  Modelled from the spec: \<^verbatim>\<open>events.AddCoro\<close> is not part of the sources at hand;
  \<^verbatim>\<open>AddCoro(factory, prio)\<close> is the operation form of spawn. Its first argument here is
  the bound method \<^verbatim>\<open>conn.run\<close>, kept as the connection object.
\<close>

datatype 'conn yielded =
    Yield_Accept Accept
  | Yield_AddCoro 'conn priority

text \<open>
  One resumption: the coroutine yields its next operation, or an exception leaves it, or
  it runs on without ever yielding (\<open>Spins\<close>: the accept guard catching an exception it
  raised itself, over and over). \<^verbatim>\<open>with closing(self.socket)\<close> closes the listening
  socket when an exception leaves the loop. The guard \<^verbatim>\<open>try: ... except Exception:
  ... continue\<close> covers the \<^verbatim>\<open>yield\<close> of the \<^verbatim>\<open>Accept\<close>, the unpacking of its value and
  the call of \<^verbatim>\<open>settimeout\<close>: an exception thrown in at the \<^verbatim>\<open>yield\<close>, a value that is no
  pair, or a first component without \<^verbatim>\<open>settimeout\<close> (\<^verbatim>\<open>None\<close> or a plain value) all
  lead back to the head of the loop. Everything after the guard is unprotected.
\<close>

datatype ('app, 'conn) step =
    Yields "'conn yielded" "('app, 'conn) WSGIServer" serve_pc
  | Raises py_error "('app, 'conn) WSGIServer"
  | Spins








section \<open>Properties\<close>

subsection \<open>Evaluation of the class table\<close>

lemma class_named_bound:
  "class_named ''SocketOperation'' = Some C_SocketOperation"
  "class_named ''Recv'' = Some C_Recv"
  "class_named ''Send'' = Some C_Send"
  "class_named ''SendAll'' = Some C_SendAll"
  "class_named ''Accept'' = Some C_Accept"
  "class_named ''Connect'' = Some C_Connect"
  by (simp_all add: class_named_def class_statements_def)

lemma class_named_unbound:
  "class_named ''Read'' = None"
  "class_named ''Write'' = None"
  "class_named ''WriteAll'' = None"
  "class_named ''WriteOperation'' = None"
  "class_named ''SendFile'' = None"
  by (simp_all add: class_named_def class_statements_def)

lemma py_super_own_class:
  "py_super ''SocketOperation'' C_Recv = Inr [C_TimedOperation]"
  "py_super ''SocketOperation'' C_Send = Inr [C_TimedOperation]"
  "py_super ''SocketOperation'' C_SendAll = Inr [C_TimedOperation]"
  "py_super ''SocketOperation'' C_Accept = Inr [C_TimedOperation]"
  "py_super ''SocketOperation'' C_Connect = Inr [C_TimedOperation]"
  "py_super ''Accept'' C_Accept = Inr [C_SocketOperation, C_TimedOperation]"
  "py_super ''Connect'' C_Connect = Inr [C_SocketOperation, C_TimedOperation]"
  by (simp_all add: py_super_def class_named_bound mro_def)

lemma py_super_unbound:
  "py_super ''Read'' c = Inl NameError"
  "py_super ''Write'' c = Inl NameError"
  "py_super ''WriteAll'' c = Inl NameError"
  "py_super ''SendFile'' c = Inl NameError"
  by (simp_all add: py_super_def class_named_unbound)

lemma py_super_foreign_class: "py_super ''Accept'' C_Connect = Inl TypeError"
  by (simp add: py_super_def class_named_bound mro_def)

lemma lookup_method_base:
  "lookup_method [C_TimedOperation] ''__init__'' = Some C_TimedOperation"
  "lookup_method [C_SocketOperation, C_TimedOperation] ''__init__'' = Some C_SocketOperation"
  "lookup_method [C_SocketOperation, C_TimedOperation] ''finalize'' = Some C_TimedOperation"
  by (simp_all add: lookup_method_def)

lemma SocketOperation_init_ok:
  assumes "\<not> kw_clash [''self'', ''sock''] kws"
    and "py_super ''SocketOperation'' c = Inr [C_TimedOperation]"
  shows "SocketOperation_init c sk kws =
           Inr \<lparr>sock = sk,
                run_first = (case kws ''run_first'' of None \<Rightarrow> PyBool True | Some v \<Rightarrow> v),
                base_kws = kws(''run_first'' := None)\<rparr>"
  using assms by (simp add: SocketOperation_init_def lookup_method_base)

subsection \<open>The default timeout\<close>

lemma setdefaulttimeout_id: "setdefaulttimeout g t = g"
  by (simp add: setdefaulttimeout_def store_name_def)

text \<open>
  Claim C9. For every timeout value \<open>t\<close>, \<^verbatim>\<open>setdefaulttimeout(t)\<close> leaves the module-level
  default unchanged: \<^verbatim>\<open>getdefaulttimeout()\<close> returns the same value before and after the
  call, which is \<^verbatim>\<open>None\<close> in the module as loaded, and a \<^verbatim>\<open>Socket\<close> constructed after
  the call is the one constructed without it and carries that unchanged default as its
  per-socket timeout.
\<close>

theorem setdefaulttimeout_no_effect:
  "getdefaulttimeout (setdefaulttimeout g t) = getdefaulttimeout g
   \<and> getdefaulttimeout (setdefaulttimeout module_globals t) = Inr PyNone
   \<and> Socket_init (setdefaulttimeout g t) os_new a k = Socket_init g os_new a k
   \<and> (\<forall>s. Socket_init (setdefaulttimeout g t) os_new a k = Inr s
          \<longrightarrow> getdefaulttimeout g = Inr (sock_timeout s))"
  by (auto simp: setdefaulttimeout_id getdefaulttimeout_def load_global_def module_globals_def
        Socket_init_def split: sum.splits option.splits)

theorem setdefaulttimeout_no_effect_witness:
  "Socket_init (setdefaulttimeout module_globals (PyInt 5)) (\<lambda>a k. Inr 3) [] Map.empty
     = Inr \<lparr>sock_fd = \<lparr>fileno = 3, blocking = False, is_closed = False\<rparr>,
            sock_timeout = PyNone, sock_reactor_added = False\<rparr>
   \<and> getdefaulttimeout module_globals = Inr PyNone"
  using setdefaulttimeout_no_effect [of module_globals "PyInt 5" "\<lambda>a k. Inr 3" "[]" Map.empty]
  by (simp add: Socket_init_def socket_socket_def os_setblocking_def load_global_def
        module_globals_def setdefaulttimeout_def store_name_def getdefaulttimeout_def)

subsection \<open>Non-blocking mode\<close>

lemma Socket_init_nonblocking:
  "Socket_init g os_new a k = Inr s \<Longrightarrow> \<not> blocking (sock_fd s) \<and> \<not> is_closed (sock_fd s)"
  by (auto simp: Socket_init_def socket_socket_def os_setblocking_def
           split: sum.splits if_splits)

text \<open>
  Claim C3. Whatever the arguments of \<^verbatim>\<open>Socket(family, type, proto)\<close>, a constructed
  socket has its descriptor in non-blocking mode. Afterwards \<^verbatim>\<open>s.setblocking(v)\<close> raises
  for every truthy \<open>v\<close>, and for every falsy \<open>v\<close> it returns normally, leaves the socket as
  it was and so leaves non-blocking mode in effect.
\<close>

theorem Socket_nonblocking_enforced:
  "Socket_init g os_new a k = Inr s \<Longrightarrow>
     \<not> blocking (sock_fd s)
     \<and> (truthy v \<longrightarrow> Socket_setblocking s v = Inl RuntimeError)
     \<and> (\<not> truthy v \<longrightarrow>
          (\<exists>s'. Socket_setblocking s v = Inr s' \<and> s' = s \<and> \<not> blocking (sock_fd s')))"
  by (auto simp: Socket_setblocking_def dest: Socket_init_nonblocking)

theorem Socket_nonblocking_enforced_witness:
  "Socket_init module_globals (\<lambda>a k. Inr 3) [PyInt 2, PyInt 1, PyInt 0] Map.empty
     = Inr \<lparr>sock_fd = \<lparr>fileno = 3, blocking = False, is_closed = False\<rparr>, sock_timeout = PyNone, sock_reactor_added = False\<rparr>
   \<and> truthy (PyInt 1)
   \<and> Socket_setblocking \<lparr>sock_fd = \<lparr>fileno = 3, blocking = False, is_closed = False\<rparr>, sock_timeout = PyNone, sock_reactor_added = False\<rparr> (PyInt 1) = Inl RuntimeError
   \<and> \<not> truthy (PyInt 0)
   \<and> Socket_setblocking \<lparr>sock_fd = \<lparr>fileno = 3, blocking = False, is_closed = False\<rparr>, sock_timeout = PyNone, sock_reactor_added = False\<rparr> (PyInt 0)
       = Inr \<lparr>sock_fd = \<lparr>fileno = 3, blocking = False, is_closed = False\<rparr>, sock_timeout = PyNone, sock_reactor_added = False\<rparr>"
proof -
  have h: "Socket_init module_globals (\<lambda>a k. Inr 3) [PyInt 2, PyInt 1, PyInt 0] Map.empty
     = Inr \<lparr>sock_fd = \<lparr>fileno = 3, blocking = False, is_closed = False\<rparr>, sock_timeout = PyNone, sock_reactor_added = False\<rparr>"
    by (simp add: Socket_init_def socket_socket_def os_setblocking_def load_global_def
        module_globals_def)
  show ?thesis
    using h Socket_nonblocking_enforced [OF h, of "PyInt 1"]
          Socket_nonblocking_enforced [OF h, of "PyInt 0"]
    by simp
qed

subsection \<open>Construction of the operations\<close>

lemma Recv_init_raises:
  "Recv_init sk n kws = Inl (if kw_clash [''self'', ''sock'', ''len''] kws
                             then TypeError else NameError)"
  by (simp add: Recv_init_def super_init_def py_super_unbound)

lemma Send_init_raises:
  "Send_init sk b kws = Inl (if kw_clash [''self'', ''sock'', ''buff''] kws
                             then TypeError else NameError)"
  by (simp add: Send_init_def super_init_def py_super_unbound)

lemma SendAll_init_raises:
  "SendAll_init sk b kws = Inl (if kw_clash [''self'', ''sock'', ''buff''] kws
                                then TypeError else NameError)"
  by (simp add: SendAll_init_def super_init_def py_super_unbound)

lemma Accept_init_ok:
  "\<not> kw_clash [''self'', ''sock''] kws \<Longrightarrow>
   Accept_init sk kws =
     Inr \<lparr>sock = sk,
          run_first = (case kws ''run_first'' of None \<Rightarrow> PyBool True | Some v \<Rightarrow> v),
          base_kws = kws(''run_first'' := None), accept_conn = None, accept_addr = Unset\<rparr>"
  by (simp add: Accept_init_def super_init_def py_super_own_class lookup_method_base
        SocketOperation_init_ok kw_clash_def)

lemma Connect_init_ok:
  "\<not> kw_clash [''self'', ''sock'', ''addr''] kws \<Longrightarrow>
   Connect_init sk a kws =
     Inr \<lparr>sock = sk,
          run_first = (case kws ''run_first'' of None \<Rightarrow> PyBool True | Some v \<Rightarrow> v),
          base_kws = kws(''run_first'' := None), connect_addr = a, connect_conn = Unset\<rparr>"
  by (simp add: Connect_init_def super_init_def py_super_own_class lookup_method_base
        SocketOperation_init_ok kw_clash_def)

lemma Accept_init_timeout:
  "Accept_init sk kws = Inr op \<Longrightarrow> op_timeout op = kws ''timeout''"
  by (cases "kw_clash [''self'', ''sock''] kws")
     (auto simp: Accept_init_ok op_timeout_def, simp add: Accept_init_def)

lemma Connect_init_timeout:
  "Connect_init sk a kws = Inr op \<Longrightarrow> op_timeout op = kws ''timeout''"
  by (cases "kw_clash [''self'', ''sock'', ''addr''] kws")
     (auto simp: Connect_init_ok op_timeout_def, simp add: Connect_init_def)

subsection \<open>The per-socket timeout\<close>

text \<open>
  Claim C6. After \<^verbatim>\<open>s.settimeout(t)\<close> the call \<^verbatim>\<open>s.gettimeout()\<close> returns \<open>t\<close>, and
  \<^verbatim>\<open>s.recv(n)\<close>, \<^verbatim>\<open>s.send(b)\<close> and \<^verbatim>\<open>s.sendall(b)\<close> should each construct an operation
  that carries \<open>t\<close>. Each of them does pass \<^verbatim>\<open>timeout=self._timeout\<close>, but the constructor
  it calls names its own class \<^verbatim>\<open>Read\<close>, \<^verbatim>\<open>Write\<close> or \<^verbatim>\<open>WriteAll\<close> in \<^verbatim>\<open>super(...)\<close>,
  a name the module binds nowhere: whatever the keywords, no operation is returned, and
  without keywords the call raises \<^verbatim>\<open>NameError\<close>.
\<close>

theorem settimeout_then_operations_raise:
  "Socket_gettimeout (Socket_settimeout s t) = t
   \<and> Socket_recv (Socket_settimeout s t) n Map.empty = Inl NameError
   \<and> Socket_send (Socket_settimeout s t) b Map.empty = Inl NameError
   \<and> Socket_sendall (Socket_settimeout s t) b Map.empty = Inl NameError
   \<and> Socket_recv (Socket_settimeout s t) n kws \<noteq> Inr r
   \<and> Socket_send (Socket_settimeout s t) b kws \<noteq> Inr w
   \<and> Socket_sendall (Socket_settimeout s t) b kws \<noteq> Inr a"
  by (simp add: Socket_gettimeout_def Socket_settimeout_def Socket_recv_def Socket_send_def
        Socket_sendall_def Recv_init_raises Send_init_raises SendAll_init_raises kw_clash_def)

text \<open>
  Claim C10. For every socket \<open>s\<close>, the operations that \<^verbatim>\<open>s.accept()\<close> and
  \<^verbatim>\<open>s.connect(addr)\<close> construct are created without the per-socket timeout: after
  \<^verbatim>\<open>s.settimeout(t)\<close> they carry no timeout at all when called without keywords, and with
  keywords they carry exactly the timeout given explicitly, if any. \<^verbatim>\<open>s.recv\<close>,
  \<^verbatim>\<open>s.send\<close> and \<^verbatim>\<open>s.sendall\<close> differ: they pass \<^verbatim>\<open>timeout\<close> themselves, so that an
  explicit \<^verbatim>\<open>timeout\<close> keyword is a second value for it and the call raises
  \<^verbatim>\<open>TypeError\<close>.
\<close>

theorem accept_connect_without_socket_timeout:
  "(\<exists>op. Socket_accept (Socket_settimeout s t) Map.empty = Inr op \<and> op_timeout op = None)
   \<and> (\<exists>op. Socket_connect (Socket_settimeout s t) address Map.empty = Inr op
            \<and> op_timeout op = None)
   \<and> (\<forall>op. Socket_accept (Socket_settimeout s t) kws = Inr op
            \<longrightarrow> op_timeout op = kws ''timeout'')
   \<and> (\<forall>op. Socket_connect (Socket_settimeout s t) address kws = Inr op
            \<longrightarrow> op_timeout op = kws ''timeout'')
   \<and> (kws ''timeout'' \<noteq> None \<longrightarrow>
         Socket_recv (Socket_settimeout s t) n kws = Inl TypeError
         \<and> Socket_send (Socket_settimeout s t) b kws = Inl TypeError
         \<and> Socket_sendall (Socket_settimeout s t) b kws = Inl TypeError)"
proof (intro conjI allI impI)
  show "\<exists>op. Socket_accept (Socket_settimeout s t) Map.empty = Inr op \<and> op_timeout op = None"
    by (simp add: Socket_accept_def Accept_init_ok kw_clash_def op_timeout_def)
  show "\<exists>op. Socket_connect (Socket_settimeout s t) address Map.empty = Inr op
            \<and> op_timeout op = None"
    by (simp add: Socket_connect_def Connect_init_ok kw_clash_def op_timeout_def)
  show "op_timeout op = kws ''timeout''"
    if "Socket_accept (Socket_settimeout s t) kws = Inr op" for op
    using that by (simp add: Socket_accept_def Accept_init_timeout)
  show "op_timeout op = kws ''timeout''"
    if "Socket_connect (Socket_settimeout s t) address kws = Inr op" for op
    using that by (simp add: Socket_connect_def Connect_init_timeout)
  show "Socket_recv (Socket_settimeout s t) n kws = Inl TypeError"
       "Socket_send (Socket_settimeout s t) b kws = Inl TypeError"
       "Socket_sendall (Socket_settimeout s t) b kws = Inl TypeError"
    if "kws ''timeout'' \<noteq> None"
    using that
    by (simp_all add: Socket_recv_def Socket_send_def Socket_sendall_def kw_clash_def)
qed

theorem accept_connect_without_socket_timeout_witness:
  "Socket_accept (Socket_settimeout \<lparr>sock_fd = \<lparr>fileno = 3, blocking = False, is_closed = False\<rparr>, sock_timeout = PyNone, sock_reactor_added = False\<rparr> (PyInt 30)) [''timeout'' \<mapsto> PyInt 7]
     = Inr \<lparr>sock = Socket_settimeout \<lparr>sock_fd = \<lparr>fileno = 3, blocking = False, is_closed = False\<rparr>, sock_timeout = PyNone, sock_reactor_added = False\<rparr> (PyInt 30), run_first = PyBool True,
            base_kws = [''timeout'' \<mapsto> PyInt 7], accept_conn = None, accept_addr = Unset\<rparr>
   \<and> op_timeout \<lparr>sock = Socket_settimeout \<lparr>sock_fd = \<lparr>fileno = 3, blocking = False, is_closed = False\<rparr>, sock_timeout = PyNone, sock_reactor_added = False\<rparr> (PyInt 30), run_first = PyBool True,
            base_kws = [''timeout'' \<mapsto> PyInt 7], accept_conn = None, accept_addr = Unset\<rparr>
       = Some (PyInt 7)
   \<and> Socket_connect (Socket_settimeout \<lparr>sock_fd = \<lparr>fileno = 3, blocking = False, is_closed = False\<rparr>, sock_timeout = PyNone, sock_reactor_added = False\<rparr> (PyInt 30)) (PyStr ''peer'')
        [''timeout'' \<mapsto> PyInt 7]
     = Inr \<lparr>sock = Socket_settimeout \<lparr>sock_fd = \<lparr>fileno = 3, blocking = False, is_closed = False\<rparr>, sock_timeout = PyNone, sock_reactor_added = False\<rparr> (PyInt 30), run_first = PyBool True,
            base_kws = [''timeout'' \<mapsto> PyInt 7], connect_addr = PyStr ''peer'',
            connect_conn = Unset\<rparr>
   \<and> op_timeout \<lparr>sock = Socket_settimeout \<lparr>sock_fd = \<lparr>fileno = 3, blocking = False, is_closed = False\<rparr>, sock_timeout = PyNone, sock_reactor_added = False\<rparr> (PyInt 30), run_first = PyBool True,
            base_kws = [''timeout'' \<mapsto> PyInt 7], connect_addr = PyStr ''peer'',
            connect_conn = Unset\<rparr>
       = Some (PyInt 7)
   \<and> Socket_recv (Socket_settimeout \<lparr>sock_fd = \<lparr>fileno = 3, blocking = False, is_closed = False\<rparr>, sock_timeout = PyNone, sock_reactor_added = False\<rparr> (PyInt 30)) (PyInt 1024) [''timeout'' \<mapsto> PyInt 7]
       = Inl TypeError"
proof -
  have a: "Socket_accept (Socket_settimeout \<lparr>sock_fd = \<lparr>fileno = 3, blocking = False, is_closed = False\<rparr>, sock_timeout = PyNone, sock_reactor_added = False\<rparr> (PyInt 30)) [''timeout'' \<mapsto> PyInt 7]
     = Inr \<lparr>sock = Socket_settimeout \<lparr>sock_fd = \<lparr>fileno = 3, blocking = False, is_closed = False\<rparr>, sock_timeout = PyNone, sock_reactor_added = False\<rparr> (PyInt 30), run_first = PyBool True,
            base_kws = [''timeout'' \<mapsto> PyInt 7], accept_conn = None, accept_addr = Unset\<rparr>"
    by (simp add: Socket_accept_def Accept_init_ok kw_clash_def)
  have c: "Socket_connect (Socket_settimeout \<lparr>sock_fd = \<lparr>fileno = 3, blocking = False, is_closed = False\<rparr>, sock_timeout = PyNone, sock_reactor_added = False\<rparr> (PyInt 30)) (PyStr ''peer'')
       [''timeout'' \<mapsto> PyInt 7]
     = Inr \<lparr>sock = Socket_settimeout \<lparr>sock_fd = \<lparr>fileno = 3, blocking = False, is_closed = False\<rparr>, sock_timeout = PyNone, sock_reactor_added = False\<rparr> (PyInt 30), run_first = PyBool True,
            base_kws = [''timeout'' \<mapsto> PyInt 7], connect_addr = PyStr ''peer'',
            connect_conn = Unset\<rparr>"
    by (simp add: Socket_connect_def Connect_init_ok kw_clash_def)
  have k: "[''timeout'' \<mapsto> PyInt 7] ''timeout'' \<noteq> None"
    by simp
  show ?thesis
    using a c k
      accept_connect_without_socket_timeout
        [where s = "\<lparr>sock_fd = \<lparr>fileno = 3, blocking = False, is_closed = False\<rparr>, sock_timeout = PyNone, sock_reactor_added = False\<rparr>" and t = "PyInt 30" and address = "PyStr ''peer''"
           and kws = "[''timeout'' \<mapsto> PyInt 7]" and n = "PyInt 1024" and b = PyNone]
    by simp
qed

subsection \<open>Finalizers\<close>

text \<open>
  Claim C4. A \<^verbatim>\<open>Connect\<close> operation that completed should, on \<^verbatim>\<open>finalize\<close>, finalize as
  a \<^verbatim>\<open>Connect\<close> and return the connected socket. The body calls
  \<^verbatim>\<open>super(Accept, self).finalize()\<close> on an object that is no instance of \<^verbatim>\<open>Accept\<close>:
  whatever the state of the operation and whatever the base finalizer does,
  \<^verbatim>\<open>finalize\<close> raises \<^verbatim>\<open>TypeError\<close> and returns no socket.
\<close>

theorem Connect_finalize_raises: "Connect_finalize fin op = Inl TypeError"
  by (simp add: Connect_finalize_def super_finalize_def py_super_foreign_class)

text \<open>
  Claim C7. For an \<^verbatim>\<open>Accept\<close> operation that completed, that is, one whose \<^verbatim>\<open>conn\<close>
  holds the accepted connection's socket \<open>c\<close> and whose \<^verbatim>\<open>addr\<close> holds the peer address
  \<open>a\<close>, \<^verbatim>\<open>finalize\<close> returns the pair \<open>(c, a)\<close>, provided the base finalizer returns.
\<close>

theorem Accept_finalize_pair:
  "fin (base_kws op) = Inr r \<Longrightarrow> accept_conn op = Some c \<Longrightarrow> accept_addr op = Holds a
   \<Longrightarrow> Accept_finalize fin op = Inr (Some c, a)"
  by (simp add: Accept_finalize_def super_finalize_def py_super_own_class lookup_method_base)

theorem Accept_finalize_pair_witness:
  "Accept_finalize (\<lambda>bk. Inr PyNone)
     \<lparr>sock = \<lparr>sock_fd = \<lparr>fileno = 3, blocking = False, is_closed = False\<rparr>, sock_timeout = PyNone, sock_reactor_added = False\<rparr>, run_first = PyBool True, base_kws = [''timeout'' \<mapsto> PyInt (- 1)],
      accept_conn = Some (Socket_settimeout \<lparr>sock_fd = \<lparr>fileno = 3, blocking = False, is_closed = False\<rparr>, sock_timeout = PyNone, sock_reactor_added = False\<rparr> (PyInt 15)),
      accept_addr = Holds (PyTuple [PyStr ''127.0.0.1'', PyInt 4711])\<rparr>
   = Inr (Some (Socket_settimeout \<lparr>sock_fd = \<lparr>fileno = 3, blocking = False, is_closed = False\<rparr>, sock_timeout = PyNone, sock_reactor_added = False\<rparr> (PyInt 15)), PyTuple [PyStr ''127.0.0.1'', PyInt 4711])"
  using Accept_finalize_pair
    [of "\<lambda>bk. Inr PyNone"
        "\<lparr>sock = \<lparr>sock_fd = \<lparr>fileno = 3, blocking = False, is_closed = False\<rparr>, sock_timeout = PyNone, sock_reactor_added = False\<rparr>, run_first = PyBool True, base_kws = [''timeout'' \<mapsto> PyInt (- 1)],
          accept_conn = Some (Socket_settimeout \<lparr>sock_fd = \<lparr>fileno = 3, blocking = False, is_closed = False\<rparr>, sock_timeout = PyNone, sock_reactor_added = False\<rparr> (PyInt 15)),
          accept_addr = Holds (PyTuple [PyStr ''127.0.0.1'', PyInt 4711])\<rparr>"
        PyNone "Socket_settimeout \<lparr>sock_fd = \<lparr>fileno = 3, blocking = False, is_closed = False\<rparr>, sock_timeout = PyNone, sock_reactor_added = False\<rparr> (PyInt 15)" "PyTuple [PyStr ''127.0.0.1'', PyInt 4711]"]
  by simp

text \<open>
  Claim C1. A \<^verbatim>\<open>SendAll(s, b)\<close> that terminates successfully should deliver the length
  of \<open>b\<close> through its \<^verbatim>\<open>finalize\<close>. The constructor calls \<^verbatim>\<open>super(WriteAll, self)\<close>, and
  \<^verbatim>\<open>WriteAll\<close> is bound nowhere: whatever the socket, the buffer and the keywords, the
  construction returns no operation, directly or through \<^verbatim>\<open>s.sendall\<close>, and without
  keywords it raises \<^verbatim>\<open>NameError\<close>. The class body also defines no \<^verbatim>\<open>finalize\<close>, where
  its sibling \<^verbatim>\<open>Send\<close> defines one.
\<close>

theorem SendAll_never_constructed:
  "SendAll_init s b kws \<noteq> Inr op
   \<and> Socket_sendall s b kws \<noteq> Inr op
   \<and> SendAll_init s b Map.empty = Inl NameError
   \<and> Socket_sendall s b Map.empty = Inl NameError
   \<and> class_named ''WriteAll'' = None
   \<and> ''finalize'' \<notin> set (class_methods C_SendAll)
   \<and> ''finalize'' \<in> set (class_methods C_Send)"
  by (simp add: Socket_sendall_def SendAll_init_raises kw_clash_def class_named_unbound)

subsection \<open>SendFile\<close>

lemma SendFile_run_unbounded:
  "sf_length op = None \<Longrightarrow>
   SendFile_run op (Inr n) =
     (Some (sf_offset op + sf_sent op, sf_blocksize op),
      if n = 0 then Returned_self (op\<lparr>sf_sent := sf_sent op + n\<rparr>)
      else Returned_None (op\<lparr>sf_sent := sf_sent op + n\<rparr>))"
  by (simp add: SendFile_run_def length_given_def Let_def)

lemma SendFile_attempts_no_zero:
  "sf_length op = None \<Longrightarrow> 0 \<notin> set ns \<Longrightarrow>
   snd (SendFile_attempts op (map Inr ns))
     = Returned_None (op\<lparr>sf_sent := sf_sent op + sum_list ns\<rparr>)
   \<and> length (fst (SendFile_attempts op (map Inr ns))) = length ns"
proof (induction ns arbitrary: op)
  case Nil
  then show ?case by simp
next
  case (Cons n ns)
  let ?op' = "op\<lparr>sf_sent := sf_sent op + n\<rparr>"
  have n0: "n \<noteq> 0" and rest: "0 \<notin> set ns" using Cons.prems by auto
  have len: "sf_length ?op' = None" using Cons.prems by simp
  have step: "SendFile_run op (Inr n) =
      (Some (sf_offset op + sf_sent op, sf_blocksize op), Returned_None ?op')"
    using Cons.prems n0 by (simp add: SendFile_run_unbounded)
  show ?case
    using Cons.IH [OF len rest] step
    by (auto simp: add.assoc split: prod.splits)
qed

lemma SendFile_attempts_first_zero:
  "sf_length op = None \<Longrightarrow> 0 \<notin> set pre \<Longrightarrow>
   snd (SendFile_attempts op (map Inr (pre @ 0 # post)))
     = Returned_self (op\<lparr>sf_sent := sf_sent op + sum_list pre\<rparr>)
   \<and> length (fst (SendFile_attempts op (map Inr (pre @ 0 # post)))) = Suc (length pre)"
proof (induction pre arbitrary: op)
  case Nil
  then show ?case by (simp add: SendFile_run_unbounded)
next
  case (Cons n ns)
  let ?op' = "op\<lparr>sf_sent := sf_sent op + n\<rparr>"
  have n0: "n \<noteq> 0" and rest: "0 \<notin> set ns" using Cons.prems by auto
  have len: "sf_length ?op' = None" using Cons.prems by simp
  have step: "SendFile_run op (Inr n) =
      (Some (sf_offset op + sf_sent op, sf_blocksize op), Returned_None ?op')"
    using Cons.prems n0 by (simp add: SendFile_run_unbounded)
  show ?case
    using Cons.IH [OF len rest] step
    by (auto simp: add.assoc split: prod.splits)
qed

lemma SendFile_run_whole_remaining:
  assumes "sf_length op = Some L" and "L \<noteq> 0" and "sf_blocksize op = 0"
  shows "fst (SendFile_run op r) =
           (if sf_sent op < L then Some (sf_offset op + sf_sent op, L - sf_sent op) else None)"
  using assms by (auto simp: SendFile_run_def length_given_def Let_def split: sum.splits)

lemma SendFile_run_sent:
  "snd (SendFile_run op (Inr n)) = Returned_self op' \<or>
   snd (SendFile_run op (Inr n)) = Returned_None op'
   \<Longrightarrow> op' = op \<or> op' = op\<lparr>sf_sent := sf_sent op + n\<rparr>"
  by (auto simp: SendFile_run_def Let_def split: if_splits)

text \<open>
  Claim C5. A \<^verbatim>\<open>SendFile(file, sock, offset, length, blocksize)\<close> should, attempt by
  attempt, request the remaining length and deliver the total of the bytes sent. The class
  statement names the base \<^verbatim>\<open>WriteOperation\<close>, which is bound nowhere, so it raises
  \<^verbatim>\<open>NameError\<close> and the name \<^verbatim>\<open>SendFile\<close> is never bound: whatever its arguments, the
  call \<^verbatim>\<open>SendFile(...)\<close> raises \<^verbatim>\<open>NameError\<close> and no attempt is ever made. The class body
  also defines no \<^verbatim>\<open>finalize\<close> that would deliver \<^verbatim>\<open>sent\<close>.
\<close>

theorem SendFile_never_constructed:
  "class_named ''WriteOperation'' = None
   \<and> class_named ''SendFile'' = None
   \<and> SendFile_init fh sk off len bs kws = Inl NameError
   \<and> ''finalize'' \<notin> set (class_methods C_SendFile)"
  by (simp add: SendFile_init_def class_named_unbound)

subsection \<open>The accept loop of the server\<close>








subsection \<open>Closing a socket\<close>

text \<open>
  \<^verbatim>\<open>Socket.close\<close> closes the descriptor and nothing else: the wrapper keeps no reference
  to the operations issued on it, and every other field is as before.
\<close>

lemma Socket_close_frame:
  "is_closed (sock_fd (Socket_close s))
   \<and> fileno (sock_fd (Socket_close s)) = fileno (sock_fd s)
   \<and> blocking (sock_fd (Socket_close s)) = blocking (sock_fd s)
   \<and> sock_timeout (Socket_close s) = sock_timeout s
   \<and> sock_reactor_added (Socket_close s) = sock_reactor_added s"
  by (simp add: Socket_close_def os_close_def)

end
